theory Spec2Isabelle
  imports Complex_Main "HOL-Library.Word" "HOL-Library.Signed_Division"
begin

section \<open>Machine types of phc2sys.c\<close>

text \<open>
  The program is modelled for an LP64 Linux target: \<open>long\<close>, \<open>long long\<close>, \<open>time_t\<close>,
  \<open>int64_t\<close> and \<open>uint64_t\<close> are 64 bits wide, \<open>int\<close> is 32 bits wide. A 64-bit value is a
  \<open>64 word\<close>; addition, subtraction and multiplication wrap around, which is what the
  conversion between \<open>uint64_t\<close> and \<open>int64_t\<close> and two's-complement hardware do. The signed
  reading of a word is \<open>sint\<close>, the unsigned one \<open>uint\<close>; \<open><s\<close> is the signed comparison.
\<close>

type_synonym int64_t = "64 word"
type_synonym uint64_t = "64 word"
type_synonym long = "64 word"
type_synonym cint = "32 word"
type_synonym clockid_t = int

definition NS_PER_SEC :: "64 word" where
  "NS_PER_SEC = 1000000000"

definition max_ppb :: int where
  "max_ppb = 512000"

definition min_ppb :: int where
  "min_ppb = - 512000"

text \<open>
  C's \<open>/\<close> and \<open>%\<close> on signed operands truncate towards zero (\<open>sdiv\<close> and \<open>smod\<close> on
  \<open>int\<close>); on unsigned operands they are \<open>div\<close> and \<open>mod\<close> of the word type.
\<close>

definition sdiv64 :: "int64_t \<Rightarrow> int64_t \<Rightarrow> int64_t" where
  "sdiv64 a b = word_of_int (sint a sdiv sint b)"

definition smod64 :: "int64_t \<Rightarrow> int64_t \<Rightarrow> int64_t" where
  "smod64 a b = word_of_int (sint a smod sint b)"

section \<open>Arithmetic of type double\<close>

text \<open>
  The servo computes in C's \<open>double\<close>. The operations the program uses are gathered in a
  record, and every function that computes with doubles takes it as its first argument:
  a theorem stated for an arbitrary record holds for whatever the target's floating-point
  unit computes, rounding included.
  \<^item> \<open>d_lit m e\<close> is the value of the decimal literal \<open>m \<times> 10\<^sup>-\<^sup>e\<close> (\<open>0.0\<close>, \<open>0.7\<close>, \<open>65.536\<close>);
  \<^item> \<open>d_of_int\<close> is the conversion of an integer value to \<open>double\<close>;
  \<^item> \<open>d_add\<close>, \<open>d_mul\<close>, \<open>d_neg\<close> are \<open>+\<close>, \<open>*\<close> and unary \<open>-\<close>;
  \<^item> \<open>d_lt\<close> is \<open><\<close> (and \<open>a > b\<close> is \<open>d_lt b a\<close>);
  \<^item> \<open>d_to_long\<close> is the conversion \<open>(long) x\<close>.
\<close>

record 'd fpu =
  d_lit :: "int \<Rightarrow> nat \<Rightarrow> 'd"
  d_of_int :: "int \<Rightarrow> 'd"
  d_add :: "'d \<Rightarrow> 'd \<Rightarrow> 'd"
  d_mul :: "'d \<Rightarrow> 'd \<Rightarrow> 'd"
  d_neg :: "'d \<Rightarrow> 'd"
  d_lt :: "'d \<Rightarrow> 'd \<Rightarrow> bool"
  d_to_long :: "'d \<Rightarrow> long"

text \<open>
  The exact arithmetic of the real numbers is one instance; the conversion to \<open>long\<close>
  truncates towards zero. It is the instance at which concrete runs are evaluated.
\<close>

definition real_fpu :: "real fpu" where
  "real_fpu =
     \<lparr> d_lit = (\<lambda>m e. real_of_int m / 10 ^ e),
       d_of_int = real_of_int,
       d_add = (\<lambda>x y. x + y),
       d_mul = (\<lambda>x y. x * y),
       d_neg = (\<lambda>x. - x),
       d_lt = (\<lambda>x y. x < y),
       d_to_long = (\<lambda>x. word_of_int (if 0 \<le> x then \<lfloor>x\<rfloor> else \<lceil>x\<rceil>)) \<rparr>"

section \<open>What the program does to its environment\<close>

datatype adj_mode = ADJ_FREQUENCY | ADJ_SETOFFSET | ADJ_NANO

text \<open>The fields of \<open>struct timex\<close> that the program writes; \<open>memset\<close> zeroes the rest.\<close>

record timex =
  modes :: "adj_mode set"
  freq :: long
  time_tv_sec :: long
  time_tv_usec :: long

definition timex_zero :: timex where
  "timex_zero = \<lparr> modes = {}, freq = 0, time_tv_sec = 0, time_tv_usec = 0 \<rparr>"

record timespec =
  tv_sec :: long
  tv_nsec :: long

text \<open>
  The calls and the output of the program, in the order it makes them. A \<open>printf\<close> is kept
  with its arguments instead of the formatted text.
\<close>

datatype 'd effect =
    Clock_adjtime clockid_t timex
  | Clock_settime clockid_t "timespec option"
  | Printf_servo nat uint64_t uint64_t 'd
  | Printf_pps int64_t
  | Printf_phc int64_t
  | Perror string
  | Fprintf_stderr string
  | Usage
  | Usleep nat

section \<open>Clock adjustment\<close>

text \<open>
  \<open>clock_ppb\<close> and \<open>clock_step\<close> fill a \<open>struct timex\<close> and hand it to \<open>clock_adjtime\<close>; the
  argument \<open>ret\<close> is the value that call returns. \<open>clock_step_tx\<close> is the \<open>struct timex\<close> that
  \<open>clock_step\<close> submits.
\<close>

definition clock_ppb :: "'d fpu \<Rightarrow> int \<Rightarrow> clockid_t \<Rightarrow> 'd \<Rightarrow> 'd effect list" where
  "clock_ppb A ret clkid ppb =
     (let tx = timex_zero \<lparr> modes := {ADJ_FREQUENCY},
                            freq := d_to_long A (d_mul A ppb (d_lit A 65536 3)) \<rparr>
      in Clock_adjtime clkid tx #
         (if ret < 0 then [Fprintf_stderr ''failed to adjust the clock''] else []))"

text \<open>
  \<open>clock_step\<close> first splits \<open>ns\<close> into a sign and a magnitude: \<open>step_sign\<close> is the
  variable \<open>sign\<close> (an \<open>int\<close>, here already promoted to the 64-bit type of the products it
  enters), \<open>step_ns\<close> is the value of \<open>ns\<close> after the \<open>if\<close> (for the least 64-bit value
  the product \<open>ns * -1\<close> wraps around to \<open>ns\<close> itself).
\<close>

definition step_sign :: "int64_t \<Rightarrow> int64_t" where
  "step_sign ns = (if ns <s 0 then - 1 else 1)"

definition step_ns :: "int64_t \<Rightarrow> int64_t" where
  "step_ns ns = (if ns <s 0 then ns * (- 1) else ns)"

definition clock_step_tx :: "int64_t \<Rightarrow> timex" where
  "clock_step_tx ns0 =
     (let sign = step_sign ns0;
          ns = step_ns ns0;
          tx = timex_zero \<lparr> modes := {ADJ_SETOFFSET, ADJ_NANO},
                            time_tv_sec := sign * sdiv64 ns NS_PER_SEC,
                            time_tv_usec := sign * smod64 ns NS_PER_SEC \<rparr>
      in if time_tv_usec tx <s 0
         then tx \<lparr> time_tv_sec := time_tv_sec tx - 1,
                  time_tv_usec := time_tv_usec tx + 1000000000 \<rparr>
         else tx)"

definition clock_step :: "int \<Rightarrow> clockid_t \<Rightarrow> int64_t \<Rightarrow> 'd effect list" where
  "clock_step ret clkid ns =
     Clock_adjtime clkid (clock_step_tx ns) #
     (if ret < 0 then [Fprintf_stderr ''failed to step clock''] else [])"

section \<open>The servo\<close>

datatype sample_state = SAMPLE_0 | SAMPLE_1 | SAMPLE_2 | SAMPLE_3 | SAMPLE_N

text \<open>The value of the enumeration constant, as \<open>printf\<close> shows it with \<open>%d\<close>.\<close>

fun state_index :: "sample_state \<Rightarrow> nat" where
  "state_index SAMPLE_0 = 0"
| "state_index SAMPLE_1 = 1"
| "state_index SAMPLE_2 = 2"
| "state_index SAMPLE_3 = 3"
| "state_index SAMPLE_N = 4"

record 'd servo =
  last_ts :: uint64_t
  drift :: 'd
  state :: sample_state

text \<open>The static \<open>struct servo servo\<close> is zero-initialised.\<close>

definition servo_init :: "'d fpu \<Rightarrow> 'd servo" where
  "servo_init A = \<lparr> last_ts = 0, drift = d_lit A 0 0, state = SAMPLE_0 \<rparr>"

text \<open>
  \<open>do_servo\<close> returns the updated \<open>*srv\<close> and what the call did. The \<open>int64_t\<close> operand of
  a mixed expression is converted to \<open>double\<close> (\<open>d_of_int\<close> of its signed value), and so
  are the \<open>int\<close> constants \<open>min_ppb\<close> and \<open>max_ppb\<close>.
\<close>

definition do_servo ::
  "'d fpu \<Rightarrow> int \<Rightarrow> 'd servo \<Rightarrow> clockid_t \<Rightarrow> clockid_t \<Rightarrow> int64_t \<Rightarrow> uint64_t \<Rightarrow> 'd \<Rightarrow> 'd
     \<Rightarrow> 'd servo \<times> 'd effect list" where
  "do_servo A ret srv src dst offset ts kp ki =
     (let shown = Printf_servo (state_index (state srv))
                    (ts div NS_PER_SEC) (ts mod NS_PER_SEC) (drift srv);
          (srv1, out) =
            (case state srv of
               SAMPLE_0 \<Rightarrow> (srv \<lparr> state := SAMPLE_1 \<rparr>, clock_ppb A ret dst (d_lit A 0 0))
             | SAMPLE_1 \<Rightarrow> (srv \<lparr> state := SAMPLE_2 \<rparr>, [])
             | SAMPLE_2 \<Rightarrow>
                 (let delta = ts - last_ts srv;
                      offset2 = delta - NS_PER_SEC
                  in (srv \<lparr> drift := d_of_int A (sint offset2), state := SAMPLE_3 \<rparr>,
                      clock_ppb A ret dst (d_of_int A (sint (- offset2)))))
             | SAMPLE_3 \<Rightarrow> (srv \<lparr> state := SAMPLE_N \<rparr>, clock_step ret dst (- offset))
             | SAMPLE_N \<Rightarrow>
                 (let ki_term = d_mul A ki (d_of_int A (sint offset));
                      ppb = d_add A (d_add A (d_mul A kp (d_of_int A (sint offset))) (drift srv))
                              ki_term
                  in if d_lt A ppb (d_of_int A min_ppb)
                     then (srv, clock_ppb A ret dst (d_neg A (d_of_int A min_ppb)))
                     else if d_lt A (d_of_int A max_ppb) ppb
                     then (srv, clock_ppb A ret dst (d_neg A (d_of_int A max_ppb)))
                     else (srv \<lparr> drift := d_add A (drift srv) ki_term \<rparr>,
                           clock_ppb A ret dst (d_neg A ppb))))
      in (srv1 \<lparr> last_ts := ts \<rparr>, shown # out))"

text \<open>
  A sequence of servo calls on one servo: each call has its own return value of
  \<open>clock_adjtime\<close>, offset and timestamp; clocks and gains are those of the run.
\<close>

fun servo_calls ::
  "'d fpu \<Rightarrow> clockid_t \<Rightarrow> clockid_t \<Rightarrow> 'd \<Rightarrow> 'd \<Rightarrow> (int \<times> int64_t \<times> uint64_t) list \<Rightarrow> 'd servo
     \<Rightarrow> 'd servo" where
  "servo_calls A src dst kp ki [] srv = srv"
| "servo_calls A src dst kp ki ((ret, offset, ts) # calls) srv =
     servo_calls A src dst kp ki calls (fst (do_servo A ret srv src dst offset ts kp ki))"

text \<open>
  The specification's state sequence, in its own words: INIT0, INIT1, MEASURE_INTERVAL, STEP,
  then TRACKING for ever (the names of \<open>SAMPLE_0\<close> .. \<open>SAMPLE_N\<close>).
\<close>

fun spec_next_state :: "sample_state \<Rightarrow> sample_state" where
  "spec_next_state SAMPLE_0 = SAMPLE_1"
| "spec_next_state SAMPLE_1 = SAMPLE_2"
| "spec_next_state SAMPLE_2 = SAMPLE_3"
| "spec_next_state SAMPLE_3 = SAMPLE_N"
| "spec_next_state SAMPLE_N = SAMPLE_N"

fun spec_state_after :: "nat \<Rightarrow> sample_state" where
  "spec_state_after 0 = SAMPLE_0"
| "spec_state_after (Suc n) = spec_next_state (spec_state_after n)"

section \<open>The offset samplers\<close>

text \<open>
  \<open>read_phc\<close> reads the source clock, then the destination clock. \<open>src_now\<close> and \<open>dst_now\<close>
  are what the two calls of \<open>clock_gettime\<close> deliver, \<open>None\<close> when the call fails; the second
  call is not made when the first fails. \<open>CLOCK_INVALID\<close> is defined in \<open>missing.h\<close>, which is
  not among the sources, and is a parameter. The result is the list of things done and,
  when the function returns 1, the pair \<open>(*offset, *ts)\<close>; \<open>None\<close> is the return value 0.
  \<open>rdelay\<close> is an \<open>int\<close> and is sign-extended to 64 bits.
\<close>

definition read_phc ::
  "clockid_t \<Rightarrow> timespec option \<Rightarrow> timespec option \<Rightarrow> clockid_t \<Rightarrow> clockid_t \<Rightarrow> cint
     \<Rightarrow> 'd effect list \<times> (int64_t \<times> uint64_t) option" where
  "read_phc invalid src_now dst_now clkid sysclk rdelay =
     (if clkid = invalid then ([], None)
      else case src_now of
        None \<Rightarrow> ([Perror ''clock_gettime''], None)
      | Some tsrc \<Rightarrow>
          (case dst_now of
             None \<Rightarrow> ([Perror ''clock_gettime''], None)
           | Some tdst \<Rightarrow>
               ([], Some (tv_sec tdst * NS_PER_SEC - tv_sec tsrc * NS_PER_SEC
                            + tv_nsec tdst - tv_nsec tsrc - scast rdelay,
                          tv_sec tdst * NS_PER_SEC + tv_nsec tdst))))"

text \<open>
  \<open>read_pps\<close> waits for the next assert edge. \<open>fetched\<close> is what \<open>ioctl(fd, PPS_FETCH, &pfd)\<close>
  delivers: \<open>None\<close> when it fails or times out, else the fields \<open>sec\<close> (64 bits, signed) and
  \<open>nsec\<close> (32 bits, signed) of \<open>pfd.info.assert_tu\<close>. \<open>*ts % NS_PER_SEC\<close> has an unsigned left
  operand and is the unsigned remainder; the comparison with \<open>NS_PER_SEC / 2\<close> is signed.
\<close>

definition read_pps ::
  "(int64_t \<times> cint) option \<Rightarrow> 'd effect list \<times> (int64_t \<times> uint64_t) option" where
  "read_pps fetched =
     (case fetched of
        None \<Rightarrow> ([Perror ''ioctl PPS_FETCH''], None)
      | Some (sec, nsec) \<Rightarrow>
          (let ts0 = sec * NS_PER_SEC;
               ts = ts0 + scast nsec;
               offset0 = ts mod NS_PER_SEC;
               offset = (if sdiv64 NS_PER_SEC 2 <s offset0 then offset0 - NS_PER_SEC
                         else offset0)
           in ([], Some (offset, ts))))"

section \<open>The main program\<close>

text \<open>
  What \<open>main\<close> needs from outside the source file: \<open>CLOCK_INVALID\<close> and \<open>FD_TO_CLOCKID\<close> of
  \<open>missing.h\<close>, and the library functions \<open>open\<close> (the file descriptor, negative on failure,
  for a path and an access mode), \<open>atoi\<close> and \<open>atof\<close>.
\<close>

datatype open_flag = O_RDONLY | O_RDWR

record 'd sys =
  CLOCK_INVALID :: clockid_t
  FD_TO_CLOCKID :: "int \<Rightarrow> clockid_t"
  sys_open :: "string \<Rightarrow> open_flag \<Rightarrow> int"
  atoi :: "string \<Rightarrow> cint"
  atof :: "string \<Rightarrow> 'd"

definition CLOCK_REALTIME :: clockid_t where
  "CLOCK_REALTIME = 0"

definition clock_open :: "'d sys \<Rightarrow> string \<Rightarrow> 'd effect list \<times> clockid_t" where
  "clock_open S device =
     (let fd = sys_open S device O_RDWR
      in if fd < 0 then ([Fprintf_stderr (''cannot open '' @ device)], CLOCK_INVALID S)
         else ([], FD_TO_CLOCKID S fd))"

text \<open>
  The local variables of \<open>main\<close> that the options set, and the options as \<open>getopt\<close>
  delivers them one by one (\<open>Opt_other\<close> is any return value without a case of its own,
  such as \<open>'?'\<close>).
\<close>

record 'd settings =
  opt_kp :: 'd
  opt_ki :: 'd
  opt_device :: "string option"
  opt_src :: clockid_t
  opt_dst :: clockid_t
  opt_rdelay :: cint

datatype opt =
    Opt_c string | Opt_d string | Opt_r string | Opt_s string
  | Opt_P string | Opt_I string | Opt_h | Opt_other

definition settings_init :: "'d fpu \<Rightarrow> 'd sys \<Rightarrow> 'd settings" where
  "settings_init A S =
     \<lparr> opt_kp = d_lit A 7 1, opt_ki = d_lit A 3 1, opt_device = None,
       opt_src = CLOCK_INVALID S, opt_dst = CLOCK_REALTIME, opt_rdelay = 0 \<rparr>"

text \<open>
  The option loop. The result is \<open>Inl status\<close> when \<open>main\<close> returns from inside the loop and
  \<open>Inr\<close> of the settings when \<open>getopt\<close> has delivered \<open>EOF\<close>.
\<close>

fun process_args ::
  "'d sys \<Rightarrow> opt list \<Rightarrow> 'd settings \<Rightarrow> 'd effect list \<Rightarrow> 'd effect list \<times> (int + 'd settings)" where
  "process_args S [] v out = (out, Inr v)"
| "process_args S (Opt_c optarg # rest) v out =
     (let (e, c) = clock_open S optarg in process_args S rest (v \<lparr> opt_dst := c \<rparr>) (out @ e))"
| "process_args S (Opt_d optarg # rest) v out =
     process_args S rest (v \<lparr> opt_device := Some optarg \<rparr>) out"
| "process_args S (Opt_r optarg # rest) v out =
     process_args S rest (v \<lparr> opt_rdelay := atoi S optarg \<rparr>) out"
| "process_args S (Opt_s optarg # rest) v out =
     (let (e, c) = clock_open S optarg in process_args S rest (v \<lparr> opt_src := c \<rparr>) (out @ e))"
| "process_args S (Opt_P optarg # rest) v out =
     process_args S rest (v \<lparr> opt_kp := atof S optarg \<rparr>) out"
| "process_args S (Opt_I optarg # rest) v out =
     process_args S rest (v \<lparr> opt_ki := atof S optarg \<rparr>) out"
| "process_args S (Opt_h # rest) v out = (out @ [Usage], Inl 0)"
| "process_args S (Opt_other # rest) v out = (out @ [Usage], Inl (- 1))"

text \<open>
  The block \<open>if (src != CLOCK_INVALID) { ... }\<close> that sets the slave clock from the master
  clock once. \<open>now\<close> is what \<open>clock_gettime\<close> on the master clock delivers (\<open>None\<close> when it
  fails, and then \<open>clock_settime\<close> is still called, with the uninitialised \<open>now\<close>) and
  \<open>set_ret\<close> is what \<open>clock_settime\<close> returns.
\<close>

definition set_from_master ::
  "'d sys \<Rightarrow> 'd settings \<Rightarrow> timespec option \<Rightarrow> int \<Rightarrow> 'd effect list" where
  "set_from_master S v now set_ret =
     (if opt_src v \<noteq> CLOCK_INVALID S
      then (if now = None then [Perror ''clock_gettime''] else [])
           @ [Clock_settime (opt_dst v) now]
           @ (if set_ret \<noteq> 0 then [Perror ''clock_settime''] else [])
      else [])"

text \<open>
  \<open>main\<close> from its first statement to the start of the control loop. The result is
  \<open>Inl status\<close> when \<open>main\<close> returns, else the settings and the descriptor \<open>fd\<close> with which the
  control loop starts.
\<close>

definition main_startup ::
  "'d fpu \<Rightarrow> 'd sys \<Rightarrow> opt list \<Rightarrow> timespec option \<Rightarrow> int
     \<Rightarrow> 'd effect list \<times> (int + 'd settings \<times> int)" where
  "main_startup A S opts now set_ret =
     (case process_args S opts (settings_init A S) [] of
        (out, Inl status) \<Rightarrow> (out, Inl status)
      | (out, Inr v) \<Rightarrow>
          if \<not> (opt_device v \<noteq> None \<or> opt_src v \<noteq> CLOCK_INVALID S)
             \<or> opt_dst v = CLOCK_INVALID S
          then (out @ [Usage], Inl (- 1))
          else
            (case opt_device v of
               None \<Rightarrow> (out @ set_from_master S v now set_ret, Inr (v, 0))
             | Some device \<Rightarrow>
                 (let fd = sys_open S device O_RDONLY
                  in if fd < 0
                     then (out @ [Fprintf_stderr (''cannot open '' @ device)], Inl (- 1))
                     else (out @ set_from_master S v now set_ret, Inr (v, fd)))))"

section \<open>The control loop\<close>

text \<open>
  What one pass of \<open>while (1)\<close> receives from outside: the result of the PPS fetch (used
  when \<open>fd > 0\<close>), the two clock readings of \<open>read_phc\<close>, and the return value of the
  \<open>clock_adjtime\<close> call that the servo makes.
\<close>

record iter_in =
  pps_fetched :: "(int64_t \<times> cint) option"
  src_now :: "timespec option"
  dst_now :: "timespec option"
  adj_ret :: int

text \<open>
  One pass of the loop: the servo and what the pass did. A \<open>continue\<close> ends the pass with
  the servo as it was. With \<open>fd > 0\<close> the servo is given the PPS sample, else the sample of
  \<open>read_phc\<close>; in both cases only after \<open>read_phc\<close> has returned 1.
\<close>

definition loop_pass ::
  "'d fpu \<Rightarrow> 'd sys \<Rightarrow> 'd settings \<Rightarrow> int \<Rightarrow> iter_in \<Rightarrow> 'd servo \<Rightarrow> 'd servo \<times> 'd effect list" where
  "loop_pass A S v fd i srv =
     (if 0 < fd
      then (case read_pps (pps_fetched i) of
              (e, None) \<Rightarrow> (srv, e)
            | (e, Some (pps_offset, pps_ts)) \<Rightarrow>
                (case read_phc (CLOCK_INVALID S) (src_now i) (dst_now i)
                        (opt_src v) (opt_dst v) (opt_rdelay v) of
                   (e2, None) \<Rightarrow> (srv, e @ Printf_pps pps_offset # e2)
                 | (e2, Some (phc_offset, phc_ts)) \<Rightarrow>
                     (let (srv1, e3) = do_servo A (adj_ret i) srv (opt_src v) (opt_dst v)
                                         pps_offset pps_ts (opt_kp v) (opt_ki v)
                      in (srv1, e @ Printf_pps pps_offset # e2 @ Printf_phc phc_offset # e3))))
      else (case read_phc (CLOCK_INVALID S) (src_now i) (dst_now i)
                   (opt_src v) (opt_dst v) (opt_rdelay v) of
              (e2, None) \<Rightarrow> (srv, Usleep 1000000 # e2)
            | (e2, Some (phc_offset, phc_ts)) \<Rightarrow>
                (let (srv1, e3) = do_servo A (adj_ret i) srv (opt_src v) (opt_dst v)
                                    phc_offset phc_ts (opt_kp v) (opt_ki v)
                 in (srv1, Usleep 1000000 # e2 @ Printf_phc phc_offset # e3))))"

text \<open>
  The loop has no exit. Its passes are taken one after the other from the list of what
  they receive; the result is the servo and everything done after the last pass of the
  list, a prefix of the endless run.
\<close>

fun main_loop ::
  "'d fpu \<Rightarrow> 'd sys \<Rightarrow> 'd settings \<Rightarrow> int \<Rightarrow> iter_in list \<Rightarrow> 'd servo \<Rightarrow> 'd servo \<times> 'd effect list" where
  "main_loop A S v fd [] srv = (srv, [])"
| "main_loop A S v fd (i # rest) srv =
     (let (srv1, e1) = loop_pass A S v fd i srv;
          (srv2, e2) = main_loop A S v fd rest srv1
      in (srv2, e1 @ e2))"

text \<open>
  The program: the exit status (\<open>None\<close> while the control loop is running), the servo and
  everything done.
\<close>

definition main ::
  "'d fpu \<Rightarrow> 'd sys \<Rightarrow> opt list \<Rightarrow> timespec option \<Rightarrow> int \<Rightarrow> iter_in list
     \<Rightarrow> int option \<times> 'd servo \<times> 'd effect list" where
  "main A S opts now set_ret passes =
     (case main_startup A S opts now set_ret of
        (out, Inl status) \<Rightarrow> (Some status, servo_init A, out)
      | (out, Inr (v, fd)) \<Rightarrow>
          (let (srv, e) = main_loop A S v fd passes (servo_init A)
           in (None, srv, out @ e)))"

text \<open>
  What \<open>do_servo\<close> does: every call starts with its \<open>printf\<close>, and only the servo calls
  \<open>clock_adjtime\<close>. \<open>servo_trace\<close> keeps these two kinds of entries of a list.
\<close>

fun servo_effect :: "'d effect \<Rightarrow> bool" where
  "servo_effect (Printf_servo n s ns d) = True"
| "servo_effect (Clock_adjtime c tx) = True"
| "servo_effect e = False"

definition servo_trace :: "'d effect list \<Rightarrow> 'd effect list" where
  "servo_trace out = filter servo_effect out"

section \<open>A system and a run for evaluation\<close>

text \<open>
  A system in which every \<open>open\<close> returns the descriptor \<open>fd\<close> (a failure when negative),
  with \<open>CLOCK_INVALID\<close> \<open>- 1\<close> and descriptors mapped to clock identifiers injectively; the
  settings of a run with a PPS device and no master clock; and what two passes of the loop
  receive.
\<close>

definition test_sys :: "int \<Rightarrow> real sys" where
  "test_sys fd =
     \<lparr> CLOCK_INVALID = - 1, FD_TO_CLOCKID = (\<lambda>n. (- n - 1) * 8 + 3),
       sys_open = (\<lambda>path flag. fd), atoi = (\<lambda>s. 0), atof = (\<lambda>s. 0) \<rparr>"

definition pps_only :: "real settings" where
  "pps_only = \<lparr> opt_kp = 7 / 10, opt_ki = 3 / 10, opt_device = Some ''/dev/pps0'',
                opt_src = - 1, opt_dst = 0, opt_rdelay = 0 \<rparr>"

definition two_passes :: "iter_in list" where
  "two_passes =
     [\<lparr> pps_fetched = Some (5, 900000000), src_now = Some \<lparr> tv_sec = 5, tv_nsec = 0 \<rparr>,
        dst_now = Some \<lparr> tv_sec = 5, tv_nsec = 900001000 \<rparr>, adj_ret = 0 \<rparr>,
      \<lparr> pps_fetched = Some (6, 900000000), src_now = Some \<lparr> tv_sec = 6, tv_nsec = 0 \<rparr>,
        dst_now = Some \<lparr> tv_sec = 6, tv_nsec = 900001000 \<rparr>, adj_ret = 0 \<rparr>]"

section \<open>The state sequence of the servo\<close>

lemma do_servo_state:
  "state (fst (do_servo A ret srv src dst offset ts kp ki)) = spec_next_state (state srv)"
  by (cases "state srv") (simp_all add: do_servo_def Let_def)

lemma servo_calls_state:
  "state (servo_calls A src dst kp ki calls srv) = (spec_next_state ^^ length calls) (state srv)"
proof (induction calls arbitrary: srv)
  case Nil
  show ?case by simp
next
  case (Cons c calls)
  obtain ret offset ts where c: "c = (ret, offset, ts)"
    by (cases c) auto
  show ?case
    by (simp add: c Cons.IH do_servo_state funpow_swap1)
qed

lemma spec_state_after_funpow:
  "spec_state_after n = (spec_next_state ^^ n) SAMPLE_0"
  by (induction n) simp_all

lemma state_index_next:
  "state_index (spec_next_state s) = min 4 (Suc (state_index s))"
  by (cases s) simp_all

lemma state_index_after:
  "state_index (spec_state_after n) = min 4 n"
  by (induction n) (simp_all add: state_index_next)

text \<open>
  Claim C2. From the initial servo, the state after any sequence of calls is the one the
  specification's sequence gives for the number of calls made, whatever return values,
  offsets and timestamps the calls were given: \<open>SAMPLE_0\<close> before the first call, then
  \<open>SAMPLE_1\<close>, \<open>SAMPLE_2\<close>, \<open>SAMPLE_3\<close>, and \<open>SAMPLE_N\<close> after four calls or more. One call
  moves the state exactly one place up the enumeration, stopping at \<open>SAMPLE_N\<close>: it never
  goes back and never skips a state.
\<close>

theorem servo_state_sequence:
  "state (servo_calls A src dst kp ki calls (servo_init A)) = spec_state_after (length calls)
   \<and> state_index (state (servo_calls A src dst kp ki calls (servo_init A))) = min 4 (length calls)
   \<and> state (fst (do_servo A ret srv src dst offset ts kp ki)) = spec_next_state (state srv)
   \<and> state_index (state (fst (do_servo A ret srv src dst offset ts kp ki)))
       = min 4 (Suc (state_index (state srv)))"
proof -
  have run: "state (servo_calls A src dst kp ki calls (servo_init A))
               = spec_state_after (length calls)"
    by (simp add: servo_calls_state spec_state_after_funpow servo_init_def)
  show ?thesis
    by (simp only: run state_index_after do_servo_state state_index_next simp_thms)
qed

section \<open>The tracking state\<close>

lemmas servo_unfold = do_servo_def Let_def

text \<open>
  Claim C1, as amended. A call in state \<open>SAMPLE_N\<close> with drift \<open>d\<close> and offset \<open>o\<close> computes
  \<open>ppb = kp * o + d + ki * o\<close>. If \<open>ppb\<close> is neither below \<open>min_ppb\<close> nor above \<open>max_ppb\<close>, the
  boundary values \<open>- 512000\<close> and \<open>512000\<close> included, the drift becomes \<open>d + ki * o\<close> and the
  frequency correction is \<open>- ppb\<close>. If \<open>ppb\<close> is below \<open>min_ppb\<close> the correction is
  \<open>- min_ppb\<close>, if it is above \<open>max_ppb\<close> the correction is \<open>- max_ppb\<close>, and in both cases the
  drift keeps its value. In each case the correction \<open>x\<close> is applied to the destination
  clock: after its \<open>printf\<close> the call makes exactly one call of \<open>clock_adjtime\<close>, on \<open>dst\<close>, in
  mode \<open>ADJ_FREQUENCY\<close> with \<open>freq = (long) (x * 65.536)\<close>, and reports a failure of it. The
  state stays \<open>SAMPLE_N\<close> and \<open>last_ts\<close> becomes \<open>ts\<close> in all three cases. (The code tests
  \<open>ppb < min_ppb\<close> first, so the third case is stated for a \<open>ppb\<close> that is not below
  \<open>min_ppb\<close>.)
\<close>

theorem servo_tracking_update:
  assumes "state srv = SAMPLE_N"
    and "ki_term = d_mul A ki (d_of_int A (sint offset))"
    and "ppb = d_add A (d_add A (d_mul A kp (d_of_int A (sint offset))) (drift srv)) ki_term"
    and "shown = Printf_servo 4 (ts div NS_PER_SEC) (ts mod NS_PER_SEC) (drift srv)"
    and "report = (if ret < 0 then [Fprintf_stderr ''failed to adjust the clock''] else [])"
  shows "(\<not> d_lt A ppb (d_of_int A (- 512000)) \<and> \<not> d_lt A (d_of_int A 512000) ppb \<longrightarrow>
            do_servo A ret srv src dst offset ts kp ki =
              (srv \<lparr> drift := d_add A (drift srv) ki_term, last_ts := ts \<rparr>,
               shown #
               Clock_adjtime dst
                 \<lparr> modes = {ADJ_FREQUENCY},
                   freq = d_to_long A (d_mul A (d_neg A ppb) (d_lit A 65536 3)),
                   time_tv_sec = 0, time_tv_usec = 0 \<rparr> #
               report))
       \<and> (d_lt A ppb (d_of_int A (- 512000)) \<longrightarrow>
            do_servo A ret srv src dst offset ts kp ki =
              (srv \<lparr> last_ts := ts \<rparr>,
               shown #
               Clock_adjtime dst
                 \<lparr> modes = {ADJ_FREQUENCY},
                   freq = d_to_long A
                            (d_mul A (d_neg A (d_of_int A (- 512000))) (d_lit A 65536 3)),
                   time_tv_sec = 0, time_tv_usec = 0 \<rparr> #
               report))
       \<and> (\<not> d_lt A ppb (d_of_int A (- 512000)) \<and> d_lt A (d_of_int A 512000) ppb \<longrightarrow>
            do_servo A ret srv src dst offset ts kp ki =
              (srv \<lparr> last_ts := ts \<rparr>,
               shown #
               Clock_adjtime dst
                 \<lparr> modes = {ADJ_FREQUENCY},
                   freq = d_to_long A (d_mul A (d_neg A (d_of_int A 512000)) (d_lit A 65536 3)),
                   time_tv_sec = 0, time_tv_usec = 0 \<rparr> #
               report))"
  using assms by (simp add: servo_unfold min_ppb_def max_ppb_def clock_ppb_def timex_zero_def)

text \<open>
  Three runs in exact arithmetic with \<open>kp = 0.7\<close>, \<open>ki = 0.3\<close> and drift 100, on destination
  clock 5. Offset 1000 gives \<open>ppb = 1100\<close>: the drift becomes 400 and the frequency submitted
  is \<open>- 1100 * 65.536 = - 72089.6\<close>, truncated to \<open>- 72089\<close>. Offsets \<open>- 1000000\<close> and \<open>1000000\<close>
  saturate: the drift stays 100 and the frequency submitted is \<open>512000 * 65.536 = 33554432\<close>
  and its negation; in the last run \<open>clock_adjtime\<close> fails and the failure is reported.
\<close>

theorem servo_tracking_update_witness:
  "do_servo real_fpu 0 \<lparr> last_ts = 7, drift = 100, state = SAMPLE_N \<rparr> 1 5 1000 9 (7 / 10) (3 / 10)
     = (\<lparr> last_ts = 9, drift = 400, state = SAMPLE_N \<rparr>,
        [Printf_servo 4 0 9 100,
         Clock_adjtime 5 \<lparr> modes = {ADJ_FREQUENCY}, freq = - 72089,
                           time_tv_sec = 0, time_tv_usec = 0 \<rparr>])
   \<and> do_servo real_fpu 0 \<lparr> last_ts = 7, drift = 100, state = SAMPLE_N \<rparr> 1 5 (- 1000000) 9 (7 / 10) (3 / 10)
     = (\<lparr> last_ts = 9, drift = 100, state = SAMPLE_N \<rparr>,
        [Printf_servo 4 0 9 100,
         Clock_adjtime 5 \<lparr> modes = {ADJ_FREQUENCY}, freq = 33554432,
                           time_tv_sec = 0, time_tv_usec = 0 \<rparr>])
   \<and> do_servo real_fpu (- 1) \<lparr> last_ts = 7, drift = 100, state = SAMPLE_N \<rparr> 1 5 1000000 9 (7 / 10) (3 / 10)
     = (\<lparr> last_ts = 9, drift = 100, state = SAMPLE_N \<rparr>,
        [Printf_servo 4 0 9 100,
         Clock_adjtime 5 \<lparr> modes = {ADJ_FREQUENCY}, freq = - 33554432,
                           time_tv_sec = 0, time_tv_usec = 0 \<rparr>,
         Fprintf_stderr ''failed to adjust the clock''])"
  using
    servo_tracking_update [where A = real_fpu and ret = 0 and src = 1 and dst = 5
      and srv = "\<lparr> last_ts = 7, drift = 100, state = SAMPLE_N \<rparr>" and ts = 9
      and kp = "7 / 10" and ki = "3 / 10" and shown = "Printf_servo 4 0 9 100"
      and offset = 1000 and ki_term = 300 and ppb = 1100 and report = "[]"]
    servo_tracking_update [where A = real_fpu and ret = 0 and src = 1 and dst = 5
      and srv = "\<lparr> last_ts = 7, drift = 100, state = SAMPLE_N \<rparr>" and ts = 9
      and kp = "7 / 10" and ki = "3 / 10" and shown = "Printf_servo 4 0 9 100"
      and offset = "- 1000000" and ki_term = "- 300000" and ppb = "- 999900" and report = "[]"]
    servo_tracking_update [where A = real_fpu and ret = "- 1" and src = 1 and dst = 5
      and srv = "\<lparr> last_ts = 7, drift = 100, state = SAMPLE_N \<rparr>" and ts = 9
      and kp = "7 / 10" and ki = "3 / 10" and shown = "Printf_servo 4 0 9 100"
      and offset = 1000000 and ki_term = 300000 and ppb = 1000100
      and report = "[Fprintf_stderr ''failed to adjust the clock'']"]
  by (simp add: real_fpu_def NS_PER_SEC_def)

text \<open>
  The claim as written has the drift unchanged also where \<open>ppb\<close> is exactly \<open>512000\<close>. With
  \<open>kp = ki = 0.5\<close>, drift 0 and offset 512000 (all products and sums exact in binary floating
  point too) \<open>ppb\<close> is \<open>512000\<close>, and the call changes the drift from 0 to 256000.
\<close>

theorem servo_tracking_boundary_counterexample:
  "d_add real_fpu (d_add real_fpu (d_mul real_fpu (1 / 2) (d_of_int real_fpu (sint (512000 :: 64 word))))
       (drift \<lparr> last_ts = 0, drift = 0 :: real, state = SAMPLE_N \<rparr>))
     (d_mul real_fpu (1 / 2) (d_of_int real_fpu (sint (512000 :: 64 word)))) = 512000
   \<and> drift (fst (do_servo real_fpu 0 \<lparr> last_ts = 0, drift = 0, state = SAMPLE_N \<rparr> 1 0
                   512000 3000000000 (1 / 2) (1 / 2))) = 256000
   \<and> drift (fst (do_servo real_fpu 0 \<lparr> last_ts = 0, drift = 0, state = SAMPLE_N \<rparr> 1 0
                   512000 3000000000 (1 / 2) (1 / 2)))
       \<noteq> drift \<lparr> last_ts = 0, drift = 0 :: real, state = SAMPLE_N \<rparr>"
  by (simp add: servo_unfold real_fpu_def min_ppb_def max_ppb_def)

section \<open>The interval measurement\<close>

lemma sint_of_int_64:
  "- (2 ^ 63) \<le> k \<Longrightarrow> k < 2 ^ 63 \<Longrightarrow> sint (word_of_int k :: 64 word) = k"
  by (simp add: signed_of_int signed_take_bit_int_eq_self)

lemma measured_word:
  "(ts :: 64 word) - l - NS_PER_SEC = word_of_int (uint ts - uint l - 1000000000)"
  by (simp add: NS_PER_SEC_def)

lemma measured_neg_word:
  "- ((ts :: 64 word) - l - NS_PER_SEC) = word_of_int (- (uint ts - uint l - 1000000000))"
  by (simp add: NS_PER_SEC_def)

text \<open>
  Claim C3. A call in state \<open>SAMPLE_2\<close> computes \<open>measured = (ts - last_ts) - NS_PER_SEC\<close> in
  64-bit arithmetic, sets the drift to it (converted to \<open>double\<close>), and applies the frequency
  correction \<open>- measured\<close> to the destination clock: after its \<open>printf\<close> the call makes exactly
  one call of \<open>clock_adjtime\<close>, on \<open>dst\<close>, in mode \<open>ADJ_FREQUENCY\<close> with
  \<open>freq = (long) (- measured * 65.536)\<close>, and reports a failure of it. The call moves to
  \<open>SAMPLE_3\<close> and stores \<open>ts\<close>. Whenever the integer \<open>ts - last_ts - 1000000000\<close> lies strictly
  between \<open>- 2\<^sup>6\<^sup>3\<close> and \<open>2\<^sup>6\<^sup>3\<close>, the 64-bit values are that integer and its negation. With
  \<open>last_ts = 0\<close> and \<open>ts = 1500000000\<close> the measured offset is 500000000, the drift becomes
  500000000 and the correction is \<open>- 500000000\<close>.
\<close>

theorem servo_measure_interval:
  assumes "state srv = SAMPLE_2"
    and "measured = ts - last_ts srv - NS_PER_SEC"
    and "report = (if ret < 0 then [Fprintf_stderr ''failed to adjust the clock''] else [])"
  shows "do_servo A ret srv src dst offset ts kp ki =
           (srv \<lparr> last_ts := ts, drift := d_of_int A (sint measured), state := SAMPLE_3 \<rparr>,
            Printf_servo 2 (ts div NS_PER_SEC) (ts mod NS_PER_SEC) (drift srv) #
            Clock_adjtime dst
              \<lparr> modes = {ADJ_FREQUENCY},
                freq = d_to_long A (d_mul A (d_of_int A (sint (- measured))) (d_lit A 65536 3)),
                time_tv_sec = 0, time_tv_usec = 0 \<rparr> #
            report)
       \<and> (- (2 ^ 63) < uint ts - uint (last_ts srv) - 1000000000
            \<and> uint ts - uint (last_ts srv) - 1000000000 < 2 ^ 63 \<longrightarrow>
            sint measured = uint ts - uint (last_ts srv) - 1000000000
            \<and> sint (- measured) = - (uint ts - uint (last_ts srv) - 1000000000))
       \<and> (last_ts srv = 0 \<and> ts = 1500000000 \<longrightarrow>
            sint measured = 500000000
            \<and> sint (- measured) = - 500000000
            \<and> drift (fst (do_servo A ret srv src dst offset ts kp ki)) = d_of_int A 500000000)"
proof -
  have call: "do_servo A ret srv src dst offset ts kp ki =
           (srv \<lparr> last_ts := ts, drift := d_of_int A (sint measured), state := SAMPLE_3 \<rparr>,
            Printf_servo 2 (ts div NS_PER_SEC) (ts mod NS_PER_SEC) (drift srv) #
            Clock_adjtime dst
              \<lparr> modes = {ADJ_FREQUENCY},
                freq = d_to_long A (d_mul A (d_of_int A (sint (- measured))) (d_lit A 65536 3)),
                time_tv_sec = 0, time_tv_usec = 0 \<rparr> #
            report)"
    using assms by (simp add: servo_unfold clock_ppb_def timex_zero_def)
  have range: "sint measured = uint ts - uint (last_ts srv) - 1000000000
            \<and> sint (- measured) = - (uint ts - uint (last_ts srv) - 1000000000)"
    if "- (2 ^ 63) < uint ts - uint (last_ts srv) - 1000000000"
      and "uint ts - uint (last_ts srv) - 1000000000 < 2 ^ 63"
  proof -
    have "sint (word_of_int (uint ts - uint (last_ts srv) - 1000000000) :: 64 word)
            = uint ts - uint (last_ts srv) - 1000000000"
      by (rule sint_of_int_64) (use that in linarith)+
    moreover have "sint (word_of_int (- (uint ts - uint (last_ts srv) - 1000000000)) :: 64 word)
            = - (uint ts - uint (last_ts srv) - 1000000000)"
      by (rule sint_of_int_64) (use that in linarith)+
    ultimately show ?thesis
      using measured_word [of ts "last_ts srv"] measured_neg_word [of ts "last_ts srv"]
      by (simp only: assms(2) simp_thms)
  qed
  have example: "sint measured = 500000000
            \<and> sint (- measured) = - 500000000
            \<and> drift (fst (do_servo A ret srv src dst offset ts kp ki)) = d_of_int A 500000000"
    if "last_ts srv = 0" and "ts = 1500000000"
    unfolding call using that assms(2) by (simp add: NS_PER_SEC_def)
  from call range example show ?thesis
    by blast
qed

text \<open>
  The run of the specification, \<open>last_ts = 0\<close> and \<open>ts = 1500000000\<close>, in exact arithmetic on
  destination clock 5: the drift becomes 500000000 and the frequency submitted is
  \<open>- 500000000 * 65.536 = - 32768000000\<close>.
\<close>

theorem servo_measure_interval_witness:
  "do_servo real_fpu 0 \<lparr> last_ts = 0, drift = 0, state = SAMPLE_2 \<rparr> 1 5 42 1500000000 (7 / 10) (3 / 10)
     = (\<lparr> last_ts = 1500000000, drift = 500000000, state = SAMPLE_3 \<rparr>,
        [Printf_servo 2 1 500000000 0,
         Clock_adjtime 5 \<lparr> modes = {ADJ_FREQUENCY}, freq = - 32768000000,
                           time_tv_sec = 0, time_tv_usec = 0 \<rparr>])
   \<and> sint ((1500000000 :: 64 word) - 0 - NS_PER_SEC) = 500000000
   \<and> sint (- ((1500000000 :: 64 word) - 0 - NS_PER_SEC)) = - 500000000"
  using servo_measure_interval [where A = real_fpu and ret = 0 and src = 1 and dst = 5
      and srv = "\<lparr> last_ts = 0, drift = 0, state = SAMPLE_2 \<rparr>" and ts = 1500000000
      and kp = "7 / 10" and ki = "3 / 10" and offset = 42
      and measured = "1500000000 - 0 - NS_PER_SEC" and report = "[]"]
  by (simp add: real_fpu_def NS_PER_SEC_def)

text \<open>
  Claim C10. In state \<open>SAMPLE_2\<close> the offset argument has no influence: two calls on the same
  servo with the same timestamp (and the same gains, clocks and return value of
  \<open>clock_adjtime\<close>) but different offsets give the same servo (drift, \<open>last_ts\<close>, next state)
  and do the same things, the frequency correction among them.
\<close>

theorem servo_measure_ignores_offset:
  assumes "state srv = SAMPLE_2"
  shows "do_servo A ret srv src dst offset1 ts kp ki = do_servo A ret srv src dst offset2 ts kp ki"
  using assms by (simp add: servo_unfold)

theorem servo_measure_ignores_offset_witness:
  "do_servo real_fpu 0 \<lparr> last_ts = 1000000000, drift = 0, state = SAMPLE_2 \<rparr> 1 0
       123456 2000000500 (7 / 10) (3 / 10)
     = do_servo real_fpu 0 \<lparr> last_ts = 1000000000, drift = 0, state = SAMPLE_2 \<rparr> 1 0
       (- 987654321) 2000000500 (7 / 10) (3 / 10)
   \<and> (123456 :: 64 word) \<noteq> - 987654321"
  using servo_measure_ignores_offset [where A = real_fpu and ret = 0 and src = 1 and dst = 0
      and srv = "\<lparr> last_ts = 1000000000, drift = 0, state = SAMPLE_2 \<rparr>" and ts = 2000000500
      and kp = "7 / 10" and ki = "3 / 10" and ?offset1.0 = 123456 and ?offset2.0 = "- 987654321"]
  by simp

section \<open>The frequency scale\<close>

text \<open>
  Claim C7. For every \<open>ppb\<close>, \<open>clock_ppb\<close> makes exactly one call of \<open>clock_adjtime\<close>, on the
  clock it is given, with a \<open>struct timex\<close> that is zero but for the mode \<open>ADJ_FREQUENCY\<close> and
  \<open>freq\<close>, and \<open>freq\<close> is the product of \<open>ppb\<close> and the literal \<open>65.536\<close> converted to \<open>long\<close>;
  a negative return value is reported on \<open>stderr\<close>. This holds for whatever the target
  computes for the product and the conversion. In exact arithmetic the value submitted is
  \<open>ppb * 65.536\<close> truncated towards zero: 1000 ppb gives 65536, \<open>- 1.5\<close> ppb gives \<open>- 98\<close>
  (from \<open>- 98.304\<close>) and 0.1 ppb gives 6 (from 6.5536).
\<close>

theorem clock_ppb_scale:
  "clock_ppb A ret clkid ppb =
     Clock_adjtime clkid
       \<lparr> modes = {ADJ_FREQUENCY}, freq = d_to_long A (d_mul A ppb (d_lit A 65536 3)),
         time_tv_sec = 0, time_tv_usec = 0 \<rparr> #
     (if ret < 0 then [Fprintf_stderr ''failed to adjust the clock''] else [])
   \<and> clock_ppb real_fpu ret clkid x =
     Clock_adjtime clkid
       \<lparr> modes = {ADJ_FREQUENCY},
         freq = word_of_int (if 0 \<le> x * (65536 / 1000) then \<lfloor>x * (65536 / 1000)\<rfloor>
                             else \<lceil>x * (65536 / 1000)\<rceil>),
         time_tv_sec = 0, time_tv_usec = 0 \<rparr> #
     (if ret < 0 then [Fprintf_stderr ''failed to adjust the clock''] else [])
   \<and> clock_ppb real_fpu 0 5 1000 =
     [Clock_adjtime 5 \<lparr> modes = {ADJ_FREQUENCY}, freq = 65536,
                        time_tv_sec = 0, time_tv_usec = 0 \<rparr>]
   \<and> clock_ppb real_fpu 0 5 (- 3 / 2) =
     [Clock_adjtime 5 \<lparr> modes = {ADJ_FREQUENCY}, freq = - 98,
                        time_tv_sec = 0, time_tv_usec = 0 \<rparr>]
   \<and> clock_ppb real_fpu (- 1) 5 (1 / 10) =
     [Clock_adjtime 5 \<lparr> modes = {ADJ_FREQUENCY}, freq = 6,
                        time_tv_sec = 0, time_tv_usec = 0 \<rparr>,
      Fprintf_stderr ''failed to adjust the clock'']"
  by (simp add: clock_ppb_def timex_zero_def real_fpu_def)

section \<open>The phase step\<close>

lemma sint_of_int_64n:
  "- 9223372036854775808 \<le> k \<Longrightarrow> k < 9223372036854775808
     \<Longrightarrow> sint (word_of_int k :: 64 word) = k"
  by (simp add: signed_of_int signed_take_bit_int_eq_self)







section \<open>The PPS sample\<close>

lemma half_second: "sdiv64 NS_PER_SEC 2 = 500000000"
  by (simp add: sdiv64_def NS_PER_SEC_def signed_divide_int_def)

lemma read_pps_offset:
  assumes "ts = sec * NS_PER_SEC + scast nsec" and "residual = uint ts mod 1000000000"
  shows "\<exists>offset. read_pps (Some (sec, nsec)) = ([] :: 'd effect list, Some (offset, ts))
       \<and> sint offset = (if 500000000 < residual then residual - 1000000000 else residual)"
proof -
  define m where "m = ts mod NS_PER_SEC"
  have rp: "read_pps (Some (sec, nsec))
              = ([] :: 'd effect list, Some (if 500000000 <s m then m - NS_PER_SEC else m, ts))"
    by (simp add: read_pps_def Let_def half_second assms(1) m_def)
  have r: "0 \<le> residual" "residual < 1000000000"
    unfolding assms(2) by simp_all
  have m: "m = word_of_int residual"
    unfolding m_def assms(2) NS_PER_SEC_def by (simp add: word_mod_def)
  have s0: "sint m = residual"
    unfolding m by (rule sint_of_int_64n) (use r in linarith)+
  have s1: "sint (m - NS_PER_SEC) = residual - 1000000000"
  proof -
    have "m - NS_PER_SEC = word_of_int (residual - 1000000000)"
      by (simp add: m NS_PER_SEC_def)
    moreover have "sint (word_of_int (residual - 1000000000) :: 64 word) = residual - 1000000000"
      by (rule sint_of_int_64n) (use r in linarith)+
    ultimately show ?thesis by simp
  qed
  have lt: "500000000 <s m \<longleftrightarrow> 500000000 < residual"
    by (simp add: word_sless_alt s0)
  show ?thesis
    unfolding rp using s0 s1 by (simp add: lt)
qed

text \<open>
  Claim C4. When the fetch succeeds with the fields \<open>sec\<close> and \<open>nsec\<close>, \<open>read_pps\<close> returns 1
  with the timestamp \<open>ts = sec * NS_PER_SEC + nsec\<close> (64 bits, unsigned) and an offset whose
  signed value is \<open>ts mod 10\<^sup>9\<close>, less \<open>10\<^sup>9\<close> when that residual is above \<open>5 \<times> 10\<^sup>8\<close>; the
  offset is therefore above \<open>- 5 \<times> 10\<^sup>8\<close> and at most \<open>5 \<times> 10\<^sup>8\<close>. A residual of 900000000 gives
  the offset \<open>- 100000000\<close>, a residual of 400000000 the offset 400000000.
\<close>

theorem pps_offset_wrap:
  assumes "ts = sec * NS_PER_SEC + scast nsec" and "residual = uint ts mod 1000000000"
  shows "(\<exists>offset. read_pps (Some (sec, nsec)) = ([] :: 'd effect list, Some (offset, ts))
            \<and> sint offset = (if 500000000 < residual then residual - 1000000000 else residual)
            \<and> - 500000000 < sint offset \<and> sint offset \<le> 500000000)
       \<and> (residual = 900000000 \<longrightarrow>
            read_pps (Some (sec, nsec)) = ([] :: 'd effect list, Some (- 100000000, ts)))
       \<and> (residual = 400000000 \<longrightarrow>
            read_pps (Some (sec, nsec)) = ([] :: 'd effect list, Some (400000000, ts)))"
proof -
  from read_pps_offset [OF assms] obtain offset where
    rp: "read_pps (Some (sec, nsec)) = ([] :: 'd effect list, Some (offset, ts))" and
    so: "sint offset = (if 500000000 < residual then residual - 1000000000 else residual)"
    by blast
  have r: "0 \<le> residual" "residual < 1000000000"
    unfolding assms(2) by simp_all
  have bounds: "- 500000000 < sint offset \<and> sint offset \<le> 500000000"
    using so r by (simp split: if_splits)
  have far: "read_pps (Some (sec, nsec)) = ([] :: 'd effect list, Some (- 100000000, ts))"
    if "residual = 900000000"
  proof -
    from so that have "sint offset = sint (- 100000000 :: 64 word)" by simp
    then have "offset = - 100000000" by (simp only: signed_word_eqI)
    with rp show ?thesis by simp
  qed
  have near: "read_pps (Some (sec, nsec)) = ([] :: 'd effect list, Some (400000000, ts))"
    if "residual = 400000000"
  proof -
    from so that have "sint offset = sint (400000000 :: 64 word)" by simp
    then have "offset = 400000000" by (simp only: signed_word_eqI)
    with rp show ?thesis by simp
  qed
  from rp so bounds far near show ?thesis
    by blast
qed

text \<open>
  Edges at 5.9 s and 5.4 s, and the two edges next to the half second: a residual of
  exactly 500000000 is kept, one of 500000001 wraps.
\<close>

theorem pps_offset_wrap_witness:
  "read_pps (Some (5, 900000000)) = ([] :: real effect list, Some (- 100000000, 5900000000))
   \<and> read_pps (Some (5, 400000000)) = ([] :: real effect list, Some (400000000, 5400000000))
   \<and> (\<exists>offset. read_pps (Some (5, 500000000)) = ([] :: real effect list, Some (offset, 5500000000))
         \<and> sint offset = 500000000)
   \<and> (\<exists>offset. read_pps (Some (5, 500000001)) = ([] :: real effect list, Some (offset, 5500000001))
         \<and> sint offset = - 499999999)"
proof -
  have t1: "(5900000000 :: 64 word) = 5 * NS_PER_SEC + scast (900000000 :: 32 word)"
    and t2: "(5400000000 :: 64 word) = 5 * NS_PER_SEC + scast (400000000 :: 32 word)"
    and t3: "(5500000000 :: 64 word) = 5 * NS_PER_SEC + scast (500000000 :: 32 word)"
    and t4: "(5500000001 :: 64 word) = 5 * NS_PER_SEC + scast (500000001 :: 32 word)"
    by (simp_all add: NS_PER_SEC_def)
  have r1: "(900000000 :: int) = uint (5900000000 :: 64 word) mod 1000000000"
    and r2: "(400000000 :: int) = uint (5400000000 :: 64 word) mod 1000000000"
    and r3: "(500000000 :: int) = uint (5500000000 :: 64 word) mod 1000000000"
    and r4: "(500000001 :: int) = uint (5500000001 :: 64 word) mod 1000000000"
    by simp_all
  have far: "read_pps (Some (5, 900000000))
               = ([] :: real effect list, Some (- 100000000, 5900000000))"
    using pps_offset_wrap [OF t1 r1, where 'd = real] by blast
  have near: "read_pps (Some (5, 400000000))
               = ([] :: real effect list, Some (400000000, 5400000000))"
    using pps_offset_wrap [OF t2 r2, where 'd = real] by blast
  have half: "\<exists>offset. read_pps (Some (5, 500000000))
               = ([] :: real effect list, Some (offset, 5500000000)) \<and> sint offset = 500000000"
  proof -
    from pps_offset_wrap [OF t3 r3, where 'd = real] obtain offset where
      "read_pps (Some (5, 500000000)) = ([] :: real effect list, Some (offset, 5500000000))"
      "sint offset = (if (500000000 :: int) < 500000000 then 500000000 - 1000000000
                      else 500000000)"
      by blast
    then show ?thesis by simp
  qed
  have above: "\<exists>offset. read_pps (Some (5, 500000001))
               = ([] :: real effect list, Some (offset, 5500000001)) \<and> sint offset = - 499999999"
  proof -
    from pps_offset_wrap [OF t4 r4, where 'd = real] obtain offset where
      "read_pps (Some (5, 500000001)) = ([] :: real effect list, Some (offset, 5500000001))"
      "sint offset = (if (500000000 :: int) < 500000001 then 500000001 - 1000000000
                      else 500000001)"
      by blast
    then show ?thesis by simp
  qed
  from far near half above show ?thesis
    by (intro conjI)
qed

section \<open>The direct-read sample\<close>

lemma uint_of_int_64n:
  "0 \<le> k \<Longrightarrow> k < 18446744073709551616 \<Longrightarrow> uint (word_of_int k :: 64 word) = k"
  by (simp add: unsigned_of_int take_bit_int_eq_self)

lemma time_word:
  "(s :: 64 word) * NS_PER_SEC + n = word_of_int (sint s * 1000000000 + sint n)"
  by (simp add: NS_PER_SEC_def)

lemma offset_word:
  "(ds :: 64 word) * NS_PER_SEC + dn - (ss * NS_PER_SEC + sn) - scast (r :: 32 word)
     = word_of_int (sint ds * 1000000000 + sint dn - (sint ss * 1000000000 + sint sn) - sint r)"
  by (simp add: NS_PER_SEC_def)

lemma sint_rdelay: "- 2147483648 \<le> sint (r :: 32 word) \<and> sint r < 2147483648"
  using sint_ge [of r] sint_lt [of r] by simp

lemma read_phc_word:
  assumes "clkid \<noteq> invalid"
  shows "read_phc invalid (Some tsrc) (Some tdst) clkid sysclk rdelay =
     ([] :: 'd effect list,
      Some ((tv_sec tdst * NS_PER_SEC + tv_nsec tdst) - (tv_sec tsrc * NS_PER_SEC + tv_nsec tsrc)
              - scast rdelay,
            tv_sec tdst * NS_PER_SEC + tv_nsec tdst))"
  using assms by (simp add: read_phc_def)

lemma phc_in_range:
  assumes d: "0 \<le> sint ds" "sint ds < 4294967296" "0 \<le> sint dn" "sint dn < 1000000000"
      and s: "0 \<le> sint ss" "sint ss < 4294967296" "0 \<le> sint sn" "sint sn < 1000000000"
  shows "sint ((ds :: 64 word) * NS_PER_SEC + dn - (ss * NS_PER_SEC + sn) - scast (r :: 32 word))
           = (sint ds * 1000000000 + sint dn) - (sint ss * 1000000000 + sint sn) - sint r
       \<and> uint (ds * NS_PER_SEC + dn) = sint ds * 1000000000 + sint dn"
proof -
  have "sint (word_of_int (sint ds * 1000000000 + sint dn - (sint ss * 1000000000 + sint sn) - sint r) :: 64 word)
          = sint ds * 1000000000 + sint dn - (sint ss * 1000000000 + sint sn) - sint r"
    by (rule sint_of_int_64n) (use d s sint_rdelay [of r] in linarith)+
  moreover have "uint (word_of_int (sint ds * 1000000000 + sint dn) :: 64 word) = sint ds * 1000000000 + sint dn"
    by (rule uint_of_int_64n) (use d in linarith)+
  ultimately show ?thesis
    using offset_word [of ds dn ss sn r] time_word [of ds dn] by simp
qed


lemma read_phc_invalid:
  "read_phc invalid s d invalid sysclk r = ([], None)"
  by (simp add: read_phc_def)

text \<open>
  Claim C5. With a valid source handle and both clock readings successful, \<open>read_phc\<close>
  returns 1 with the offset \<open>(dst_time - src_time) - rdelay\<close> and the timestamp \<open>dst_time\<close>,
  where \<open>dst_time\<close> and \<open>src_time\<close> are the two readings in nanoseconds
  (\<open>tv_sec * NS_PER_SEC + tv_nsec\<close>), all in 64-bit arithmetic. For readings between
  1970 and \<open>2\<^sup>3\<^sup>2\<close> seconds later with \<open>tv_nsec\<close> below one second, nothing wraps: the signed
  value of the offset is the integer \<open>(dst_time - src_time) - rdelay\<close> and the timestamp is
  the integer \<open>dst_time\<close>. With the source handle equal to \<open>CLOCK_INVALID\<close>, \<open>read_phc\<close> returns
  0 without reading a clock and without reporting anything, whereas a failed reading
  of a valid source returns 0 after \<open>perror\<close>.
\<close>

theorem direct_read_sample:
  assumes "dst_time = tv_sec tdst * NS_PER_SEC + tv_nsec tdst"
      and "src_time = tv_sec tsrc * NS_PER_SEC + tv_nsec tsrc"
  shows "(clkid \<noteq> invalid \<longrightarrow>
            read_phc invalid (Some tsrc) (Some tdst) clkid sysclk rdelay =
              ([] :: 'd effect list, Some (dst_time - src_time - scast rdelay, dst_time)))
       \<and> read_phc invalid s_now d_now invalid sysclk rdelay = ([] :: 'd effect list, None)
       \<and> (clkid \<noteq> invalid \<longrightarrow>
            read_phc invalid None d_now clkid sysclk rdelay =
              ([Perror ''clock_gettime''] :: 'd effect list, None))
       \<and> (0 \<le> sint (tv_sec tdst) \<and> sint (tv_sec tdst) < 4294967296
            \<and> 0 \<le> sint (tv_nsec tdst) \<and> sint (tv_nsec tdst) < 1000000000
            \<and> 0 \<le> sint (tv_sec tsrc) \<and> sint (tv_sec tsrc) < 4294967296
            \<and> 0 \<le> sint (tv_nsec tsrc) \<and> sint (tv_nsec tsrc) < 1000000000 \<longrightarrow>
            sint (dst_time - src_time - scast rdelay)
              = (sint (tv_sec tdst) * 1000000000 + sint (tv_nsec tdst))
                - (sint (tv_sec tsrc) * 1000000000 + sint (tv_nsec tsrc)) - sint rdelay
            \<and> uint dst_time = sint (tv_sec tdst) * 1000000000 + sint (tv_nsec tdst))"
proof -
  have ok: "read_phc invalid (Some tsrc) (Some tdst) clkid sysclk rdelay =
              ([] :: 'd effect list, Some (dst_time - src_time - scast rdelay, dst_time))"
    if "clkid \<noteq> invalid"
    unfolding assms using that by (rule read_phc_word)
  have none: "read_phc invalid s_now d_now invalid sysclk rdelay = ([] :: 'd effect list, None)"
    by (rule read_phc_invalid)
  have err: "read_phc invalid None d_now clkid sysclk rdelay =
              ([Perror ''clock_gettime''] :: 'd effect list, None)"
    if "clkid \<noteq> invalid"
    using that by (simp add: read_phc_def)
  have math: "sint (dst_time - src_time - scast rdelay)
              = (sint (tv_sec tdst) * 1000000000 + sint (tv_nsec tdst))
                - (sint (tv_sec tsrc) * 1000000000 + sint (tv_nsec tsrc)) - sint rdelay
            \<and> uint dst_time = sint (tv_sec tdst) * 1000000000 + sint (tv_nsec tdst)"
    if "0 \<le> sint (tv_sec tdst) \<and> sint (tv_sec tdst) < 4294967296
            \<and> 0 \<le> sint (tv_nsec tdst) \<and> sint (tv_nsec tdst) < 1000000000
            \<and> 0 \<le> sint (tv_sec tsrc) \<and> sint (tv_sec tsrc) < 4294967296
            \<and> 0 \<le> sint (tv_nsec tsrc) \<and> sint (tv_nsec tsrc) < 1000000000"
    unfolding assms using that by (intro phc_in_range) simp_all
  from ok none err math show ?thesis
    by blast
qed

theorem direct_read_sample_witness:
  "read_phc (- 1) (Some \<lparr> tv_sec = 100, tv_nsec = 250 \<rparr>) (Some \<lparr> tv_sec = 100, tv_nsec = 1000 \<rparr>)
       3 0 50
     = ([] :: real effect list, Some (700, 100000001000))
   \<and> read_phc (- 1) (Some \<lparr> tv_sec = 100, tv_nsec = 250 \<rparr>) (Some \<lparr> tv_sec = 100, tv_nsec = 1000 \<rparr>)
       (- 1) 0 50
     = ([] :: real effect list, None)
   \<and> read_phc (- 1) None (Some \<lparr> tv_sec = 100, tv_nsec = 1000 \<rparr>) 3 0 50
     = ([Perror ''clock_gettime''] :: real effect list, None)
   \<and> sint (700 :: 64 word) = 700 \<and> uint (100000001000 :: 64 word) = 100000001000"
proof -
  have d: "(100000001000 :: 64 word)
             = tv_sec \<lparr> tv_sec = 100, tv_nsec = 1000 \<rparr> * NS_PER_SEC
               + tv_nsec \<lparr> tv_sec = 100, tv_nsec = 1000 \<rparr>"
    and s: "(100000000250 :: 64 word)
             = tv_sec \<lparr> tv_sec = 100, tv_nsec = 250 \<rparr> * NS_PER_SEC
               + tv_nsec \<lparr> tv_sec = 100, tv_nsec = 250 \<rparr>"
    by (simp_all add: NS_PER_SEC_def)
  have o: "(100000001000 :: 64 word) - 100000000250 - scast (50 :: 32 word) = 700"
    by simp
  note w = direct_read_sample [OF d s, where 'd = real and invalid = "- 1" and rdelay = 50
      and sysclk = 0 and s_now = "Some \<lparr> tv_sec = 100, tv_nsec = 250 \<rparr>"
      and d_now = "Some \<lparr> tv_sec = 100, tv_nsec = 1000 \<rparr>" and clkid = 3]
  from w have a: "read_phc (- 1) (Some \<lparr> tv_sec = 100, tv_nsec = 250 \<rparr>)
       (Some \<lparr> tv_sec = 100, tv_nsec = 1000 \<rparr>) 3 0 50
     = ([] :: real effect list, Some (700, 100000001000))"
    unfolding o by simp
  from w have b: "read_phc (- 1) (Some \<lparr> tv_sec = 100, tv_nsec = 250 \<rparr>)
       (Some \<lparr> tv_sec = 100, tv_nsec = 1000 \<rparr>) (- 1) 0 50
     = ([] :: real effect list, None)"
    by blast
  from w have c: "read_phc (- 1) None (Some \<lparr> tv_sec = 100, tv_nsec = 1000 \<rparr>) 3 0 50
     = ([Perror ''clock_gettime''] :: real effect list, None)"
    by simp
  show ?thesis
    using a b c by simp
qed


section \<open>The servo in the control loop\<close>

lemma servo_trace_simps:
  "servo_trace [] = []"
  "servo_trace (out1 @ out2) = servo_trace out1 @ servo_trace out2"
  "servo_trace (Printf_pps x # out) = servo_trace out"
  "servo_trace (Printf_phc x # out) = servo_trace out"
  "servo_trace (Perror m # out) = servo_trace out"
  "servo_trace (Fprintf_stderr m # out) = servo_trace out"
  "servo_trace (Usage # out) = servo_trace out"
  "servo_trace (Usleep n # out) = servo_trace out"
  "servo_trace (Clock_settime c t # out) = servo_trace out"
  by (simp_all add: servo_trace_def)

lemma read_pps_trace: "servo_trace (fst (read_pps f)) = []"
  by (cases f) (auto simp: read_pps_def Let_def servo_trace_simps)

lemma read_phc_trace: "servo_trace (fst (read_phc invalid s d c sysclk r)) = []"
  by (auto simp: read_phc_def servo_trace_simps split: option.splits)

lemma loop_pass_no_sample:
  assumes "snd (read_phc (CLOCK_INVALID S) (src_now i) (dst_now i) (opt_src v) (opt_dst v)
                  (opt_rdelay v) :: 'd effect list \<times> (int64_t \<times> uint64_t) option) = None"
  shows "fst (loop_pass A S v fd i (srv :: 'd servo)) = srv
       \<and> servo_trace (snd (loop_pass A S v fd i srv)) = []"
proof -
  obtain e2 where rp: "(read_phc (CLOCK_INVALID S) (src_now i) (dst_now i) (opt_src v) (opt_dst v)
                  (opt_rdelay v) :: 'd effect list \<times> (int64_t \<times> uint64_t) option) = (e2, None)"
    using assms by (cases "read_phc (CLOCK_INVALID S) (src_now i) (dst_now i) (opt_src v) (opt_dst v)
                  (opt_rdelay v) :: 'd effect list \<times> (int64_t \<times> uint64_t) option") auto
  have "servo_trace (fst (read_phc (CLOCK_INVALID S) (src_now i) (dst_now i) (opt_src v)
            (opt_dst v) (opt_rdelay v) :: 'd effect list \<times> (int64_t \<times> uint64_t) option)) = []"
    by (rule read_phc_trace)
  then have t2: "servo_trace e2 = []"
    by (simp add: rp)
  obtain e p where pp: "(read_pps (pps_fetched i) :: 'd effect list \<times> (int64_t \<times> uint64_t) option) = (e, p)"
    by (cases "read_pps (pps_fetched i) :: 'd effect list \<times> (int64_t \<times> uint64_t) option") auto
  have "servo_trace (fst (read_pps (pps_fetched i)
            :: 'd effect list \<times> (int64_t \<times> uint64_t) option)) = []"
    by (rule read_pps_trace)
  then have t1: "servo_trace e = []"
    by (simp add: pp)
  show ?thesis
    by (cases p) (auto simp: loop_pass_def rp pp t1 t2 servo_trace_simps)
qed

lemma main_loop_invalid:
  assumes "opt_src v = CLOCK_INVALID S"
  shows "fst (main_loop A S v fd passes srv) = srv
       \<and> servo_trace (snd (main_loop A S v fd passes srv)) = []"
proof (induction passes)
  case Nil
  show ?case by (simp add: servo_trace_simps)
next
  case (Cons i passes)
  have "snd (read_phc (CLOCK_INVALID S) (src_now i) (dst_now i) (opt_src v) (opt_dst v)
                  (opt_rdelay v) :: 'd effect list \<times> (int64_t \<times> uint64_t) option) = None"
    by (simp add: assms read_phc_invalid)
  from loop_pass_no_sample [OF this, of A fd srv] Cons.IH show ?case
    by (simp add: split_beta servo_trace_simps)
qed

lemma process_args_trace:
  "servo_trace (fst (process_args S opts v out)) = servo_trace out"
  by (induction S opts v out rule: process_args.induct)
     (simp_all add: clock_open_def Let_def servo_trace_simps split_beta)


text \<open>
  Claim C8. In a pass of the loop in which \<open>read_phc\<close> returns 0, the servo is not called:
  it is left as it was, and the pass contains neither the \<open>printf\<close> with which \<open>do_servo\<close>
  starts nor a call of \<open>clock_adjtime\<close>. \<open>read_phc\<close> returns 0 whenever the master clock
  handle is \<open>CLOCK_INVALID\<close>; so with \<open>src = CLOCK_INVALID\<close> the servo is never called in any
  number of passes, whatever \<open>fd\<close> is and whatever the PPS fetches deliver.
\<close>

theorem servo_needs_direct_read:
  "(snd (read_phc (CLOCK_INVALID S) (src_now i) (dst_now i) (opt_src v) (opt_dst v)
            (opt_rdelay v) :: 'd effect list \<times> (int64_t \<times> uint64_t) option) = None \<longrightarrow>
      fst (loop_pass A S v fd i (srv :: 'd servo)) = srv
      \<and> servo_trace (snd (loop_pass A S v fd i srv)) = [])
   \<and> snd (read_phc (CLOCK_INVALID S) s_now d_now (CLOCK_INVALID S) sysclk rdelay
            :: 'd effect list \<times> (int64_t \<times> uint64_t) option) = None
   \<and> (opt_src v = CLOCK_INVALID S \<longrightarrow>
      fst (main_loop A S v fd passes srv) = srv
      \<and> servo_trace (snd (main_loop A S v fd passes srv)) = [])"
  using loop_pass_no_sample [of S i v A fd srv] main_loop_invalid [of v S A fd passes srv]
  by (simp add: read_phc_invalid)

text \<open>
  A PPS device on descriptor 3 and no master clock: both fetches succeed, the two passes
  print the PPS offset and nothing else, and the servo is still the initial one. With a
  master clock the same two passes call the servo twice.
\<close>

theorem servo_needs_direct_read_witness:
  "opt_src pps_only = CLOCK_INVALID (test_sys 3)
   \<and> fst (main_loop real_fpu (test_sys 3) pps_only 3 two_passes (servo_init real_fpu))
       = servo_init real_fpu
   \<and> servo_trace (snd (main_loop real_fpu (test_sys 3) pps_only 3 two_passes (servo_init real_fpu)))
       = []"
proof -
  have inv: "opt_src pps_only = CLOCK_INVALID (test_sys 3)"
    by (simp add: pps_only_def test_sys_def)
  from servo_needs_direct_read [where v = pps_only and S = "test_sys 3" and A = real_fpu
      and fd = 3 and passes = two_passes and srv = "servo_init real_fpu"] inv
  show ?thesis by blast
qed

lemma pps_only_trace:
  "snd (main_loop real_fpu (test_sys 3) pps_only 3 two_passes (servo_init real_fpu))
     = [Printf_pps (- 100000000), Printf_pps (- 100000000)]"
  by (simp add: two_passes_def pps_only_def test_sys_def loop_pass_def read_pps_def read_phc_def
      Let_def sdiv64_def signed_divide_int_def NS_PER_SEC_def word_sless_alt)

lemma with_master_trace:
  "fst (main_loop real_fpu (test_sys 3) (pps_only \<lparr> opt_src := 27 \<rparr>) 3 two_passes
          (servo_init real_fpu))
     = \<lparr> last_ts = 6900000000, drift = 0, state = SAMPLE_2 \<rparr>"
  by (simp add: two_passes_def pps_only_def test_sys_def loop_pass_def read_pps_def read_phc_def
      Let_def sdiv64_def signed_divide_int_def NS_PER_SEC_def word_sless_alt servo_init_def
      real_fpu_def do_servo_def)

section \<open>Configuration errors\<close>

lemma main_startup_bad:
  assumes "process_args S opts (settings_init A S) [] = (out, Inr v)"
      and "opt_dst v = CLOCK_INVALID S \<or> (opt_device v = None \<and> opt_src v = CLOCK_INVALID S)"
  shows "main_startup A S opts now set_ret = (out @ [Usage], Inl (- 1))"
  using assms by (auto simp: main_startup_def)

lemma main_startup_loop:
  assumes "main_startup A S opts now set_ret = (out, Inr (v, fd))"
  shows "opt_dst v \<noteq> CLOCK_INVALID S \<and> (opt_device v \<noteq> None \<or> opt_src v \<noteq> CLOCK_INVALID S)"
  using assms
  by (auto simp: main_startup_def Let_def split: prod.splits sum.splits if_splits option.splits)

lemma process_args_Inl:
  "process_args S opts v out = (out1, Inl status) \<Longrightarrow>
     (status = 0 \<or> status = - 1) \<and> (\<exists>pre. out1 = pre @ [Usage])
     \<and> (status = 0 \<longrightarrow> Opt_h \<in> set opts)"
proof (induction opts arbitrary: v out)
  case Nil
  then show ?case by simp
next
  case (Cons x opts)
  show ?case
  proof (cases x)
    case (Opt_c optarg)
    with Cons.prems have "process_args S opts (v \<lparr> opt_dst := snd (clock_open S optarg) \<rparr>)
        (out @ fst (clock_open S optarg)) = (out1, Inl status)"
      by (simp add: split_beta)
    from Cons.IH [OF this] show ?thesis by simp
  next
    case (Opt_d optarg)
    with Cons.prems have "process_args S opts (v \<lparr> opt_device := Some optarg \<rparr>) out
        = (out1, Inl status)"
      by simp
    from Cons.IH [OF this] show ?thesis by simp
  next
    case (Opt_r optarg)
    with Cons.prems have "process_args S opts (v \<lparr> opt_rdelay := atoi S optarg \<rparr>) out
        = (out1, Inl status)"
      by simp
    from Cons.IH [OF this] show ?thesis by simp
  next
    case (Opt_s optarg)
    with Cons.prems have "process_args S opts (v \<lparr> opt_src := snd (clock_open S optarg) \<rparr>)
        (out @ fst (clock_open S optarg)) = (out1, Inl status)"
      by (simp add: split_beta)
    from Cons.IH [OF this] show ?thesis by simp
  next
    case (Opt_P optarg)
    with Cons.prems have "process_args S opts (v \<lparr> opt_kp := atof S optarg \<rparr>) out
        = (out1, Inl status)"
      by simp
    from Cons.IH [OF this] show ?thesis by simp
  next
    case (Opt_I optarg)
    with Cons.prems have "process_args S opts (v \<lparr> opt_ki := atof S optarg \<rparr>) out
        = (out1, Inl status)"
      by simp
    from Cons.IH [OF this] show ?thesis by simp
  next
    case Opt_h
    with Cons.prems show ?thesis by auto
  next
    case Opt_other
    with Cons.prems show ?thesis by auto
  qed
qed

lemma process_args_stop:
  "Opt_h \<notin> set pre \<Longrightarrow> Opt_other \<notin> set pre \<Longrightarrow>
     snd (process_args S (pre @ Opt_h # rest) v out) = Inl 0
     \<and> snd (process_args S (pre @ Opt_other # rest) v out) = Inl (- 1)"
proof (induction pre arbitrary: v out)
  case Nil
  show ?case by simp
next
  case (Cons x pre)
  then show ?case
    by (cases x) (simp_all add: split_beta Let_def)
qed

lemma main_stopped:
  assumes "process_args S opts (settings_init A S) [] = (out1, Inl status)"
  shows "main A S opts now set_ret passes = (Some status, servo_init A, out1)"
  using assms by (simp add: main_def main_startup_def)

text \<open>
  Claim C9, as amended. When the option loop has run to the end of the options (no \<open>-h\<close> and
  no unknown option has ended it) and has left an invalid destination clock handle, or
  neither a PPS device nor a valid master clock handle, \<open>main\<close> prints the usage text and
  returns \<open>- 1\<close>, a non-zero exit status, and the control loop is not started. When \<open>-h\<close> or an
  unknown option ends the option loop, \<open>main\<close> returns from there, whatever is configured:
  the usage text is the last thing printed and the status is 0 or \<open>- 1\<close>; it is 0 when \<open>-h\<close>
  comes before any unknown option and \<open>- 1\<close> when an unknown option comes before any \<open>-h\<close>,
  and the control loop is not started either. In all these runs the servo is the initial
  one and nothing the program did is a servo call. Conversely, whenever the start-up
  reaches the control loop, the destination handle is valid and a PPS device or a valid
  master handle is configured.
\<close>

theorem bad_configuration_exits:
  "(process_args S opts (settings_init A S) [] = (out, Inr v)
      \<and> (opt_dst v = CLOCK_INVALID S \<or> (opt_device v = None \<and> opt_src v = CLOCK_INVALID S)) \<longrightarrow>
      main A S opts now set_ret passes = (Some (- 1), servo_init A, out @ [Usage])
      \<and> servo_trace (out @ [Usage]) = [])
   \<and> (process_args S opts (settings_init A S) [] = (out1, Inl status) \<longrightarrow>
      main A S opts now set_ret passes = (Some status, servo_init A, out1)
      \<and> (status = 0 \<or> status = - 1)
      \<and> (status = 0 \<longrightarrow> Opt_h \<in> set opts)
      \<and> (\<exists>pre. out1 = pre @ [Usage])
      \<and> servo_trace out1 = [])
   \<and> (Opt_h \<notin> set before \<and> Opt_other \<notin> set before \<longrightarrow>
      snd (process_args S (before @ Opt_h # rest) v0 out0) = Inl 0
      \<and> snd (process_args S (before @ Opt_other # rest) v0 out0) = Inl (- 1))
   \<and> (main_startup A S opts now set_ret = (out2, Inr (v2, fd)) \<longrightarrow>
      opt_dst v2 \<noteq> CLOCK_INVALID S
      \<and> (opt_device v2 \<noteq> None \<or> opt_src v2 \<noteq> CLOCK_INVALID S))"
proof -
  have exits: "main A S opts now set_ret passes = (Some (- 1), servo_init A, out @ [Usage])
      \<and> servo_trace (out @ [Usage]) = []"
    if p: "process_args S opts (settings_init A S) [] = (out, Inr v)"
      and bad: "opt_dst v = CLOCK_INVALID S \<or> (opt_device v = None \<and> opt_src v = CLOCK_INVALID S)"
  proof -
    have "servo_trace (fst (process_args S opts (settings_init A S) [])) = servo_trace []"
      by (rule process_args_trace)
    then have "servo_trace out = []"
      by (simp add: p servo_trace_simps)
    then show ?thesis
      by (simp add: main_def main_startup_bad [OF p bad] servo_trace_simps)
  qed
  have stopped: "main A S opts now set_ret passes = (Some status, servo_init A, out1)
      \<and> (status = 0 \<or> status = - 1)
      \<and> (status = 0 \<longrightarrow> Opt_h \<in> set opts)
      \<and> (\<exists>pre. out1 = pre @ [Usage])
      \<and> servo_trace out1 = []"
    if p: "process_args S opts (settings_init A S) [] = (out1, Inl status)"
  proof -
    have "servo_trace (fst (process_args S opts (settings_init A S) [])) = servo_trace []"
      by (rule process_args_trace)
    then have "servo_trace out1 = []"
      by (simp add: p servo_trace_simps)
    with main_stopped [OF p] process_args_Inl [OF p] show ?thesis
      by simp
  qed
  have first: "snd (process_args S (before @ Opt_h # rest) v0 out0) = Inl 0
      \<and> snd (process_args S (before @ Opt_other # rest) v0 out0) = Inl (- 1)"
    if "Opt_h \<notin> set before" and "Opt_other \<notin> set before"
    using that by (rule process_args_stop)
  from exits stopped first main_startup_loop [of A S opts now set_ret out2 v2 fd] show ?thesis
    by blast
qed

text \<open>
  No option at all, and a destination clock that cannot be opened: usage and status \<open>- 1\<close>.
  The option \<open>-h\<close> alone: usage and status 0. A PPS device alone with the default destination
  clock: the control loop is reached.
\<close>

theorem bad_configuration_exits_witness:
  "main real_fpu (test_sys (- 1)) [] None 0 two_passes
     = (Some (- 1), servo_init real_fpu, [Usage])
   \<and> main real_fpu (test_sys (- 1)) [Opt_c ''/dev/ptp0'', Opt_d ''/dev/pps0''] None 0 two_passes
     = (Some (- 1), servo_init real_fpu, [Fprintf_stderr ''cannot open /dev/ptp0'', Usage])
   \<and> main real_fpu (test_sys 3) [Opt_h] None 0 two_passes
     = (Some 0, servo_init real_fpu, [Usage])
   \<and> snd (process_args (test_sys 3) ([Opt_d ''/dev/pps0''] @ Opt_other # [Opt_h])
            (settings_init real_fpu (test_sys 3)) []) = Inl (- 1)
   \<and> main_startup real_fpu (test_sys 3) [Opt_d ''/dev/pps0''] None 0
     = ([], Inr (settings_init real_fpu (test_sys 3) \<lparr> opt_device := Some ''/dev/pps0'' \<rparr>, 3))
   \<and> opt_dst (settings_init real_fpu (test_sys 3) \<lparr> opt_device := Some ''/dev/pps0'' \<rparr>)
       \<noteq> CLOCK_INVALID (test_sys 3)"
proof -
  have p1: "process_args (test_sys (- 1)) [] (settings_init real_fpu (test_sys (- 1))) []
              = ([], Inr (settings_init real_fpu (test_sys (- 1))))"
    by simp
  have b1: "opt_dst (settings_init real_fpu (test_sys (- 1))) = CLOCK_INVALID (test_sys (- 1))
            \<or> (opt_device (settings_init real_fpu (test_sys (- 1))) = None
                \<and> opt_src (settings_init real_fpu (test_sys (- 1))) = CLOCK_INVALID (test_sys (- 1)))"
    by (simp add: settings_init_def)
  have p2: "process_args (test_sys (- 1)) [Opt_c ''/dev/ptp0'', Opt_d ''/dev/pps0'']
              (settings_init real_fpu (test_sys (- 1))) []
              = ([Fprintf_stderr ''cannot open /dev/ptp0''],
                 Inr (settings_init real_fpu (test_sys (- 1))
                        \<lparr> opt_dst := - 1, opt_device := Some ''/dev/pps0'' \<rparr>))"
    by (simp add: clock_open_def test_sys_def settings_init_def)
  have b2: "opt_dst (settings_init real_fpu (test_sys (- 1))
                        \<lparr> opt_dst := - 1, opt_device := Some ''/dev/pps0'' \<rparr>)
              = CLOCK_INVALID (test_sys (- 1))"
    by (simp add: test_sys_def)
  have p3: "process_args (test_sys 3) [Opt_h] (settings_init real_fpu (test_sys 3)) []
              = ([Usage], Inl 0)"
    by simp
  have n4: "Opt_h \<notin> set [Opt_d ''/dev/pps0''] \<and> Opt_other \<notin> set [Opt_d ''/dev/pps0'']"
    by simp
  have m1: "main real_fpu (test_sys (- 1)) [] None 0 two_passes
              = (Some (- 1), servo_init real_fpu, [Usage])"
    using bad_configuration_exits [where A = real_fpu and S = "test_sys (- 1)" and opts = "[]"
        and out = "[]" and v = "settings_init real_fpu (test_sys (- 1))" and now = None
        and set_ret = 0 and passes = two_passes] p1 b1
    by simp
  have m2: "main real_fpu (test_sys (- 1)) [Opt_c ''/dev/ptp0'', Opt_d ''/dev/pps0''] None 0 two_passes
              = (Some (- 1), servo_init real_fpu, [Fprintf_stderr ''cannot open /dev/ptp0'', Usage])"
    using bad_configuration_exits [where A = real_fpu and S = "test_sys (- 1)"
        and opts = "[Opt_c ''/dev/ptp0'', Opt_d ''/dev/pps0'']"
        and out = "[Fprintf_stderr ''cannot open /dev/ptp0'']"
        and v = "settings_init real_fpu (test_sys (- 1))
                        \<lparr> opt_dst := - 1, opt_device := Some ''/dev/pps0'' \<rparr>" and now = None
        and set_ret = 0 and passes = two_passes] p2 b2
    by simp
  have m3: "main_startup real_fpu (test_sys 3) [Opt_d ''/dev/pps0''] None 0
     = ([], Inr (settings_init real_fpu (test_sys 3) \<lparr> opt_device := Some ''/dev/pps0'' \<rparr>, 3))"
    by (simp add: main_startup_def settings_init_def test_sys_def CLOCK_REALTIME_def
        set_from_master_def)
  have m4: "opt_dst (settings_init real_fpu (test_sys 3) \<lparr> opt_device := Some ''/dev/pps0'' \<rparr>)
              \<noteq> CLOCK_INVALID (test_sys 3)"
    using bad_configuration_exits [where A = real_fpu and S = "test_sys 3"
        and opts = "[Opt_d ''/dev/pps0'']" and now = None and set_ret = 0 and ?out2.0 = "[]"
        and ?v2.0 = "settings_init real_fpu (test_sys 3) \<lparr> opt_device := Some ''/dev/pps0'' \<rparr>"
        and fd = 3] m3
    by blast
  have m5: "main real_fpu (test_sys 3) [Opt_h] None 0 two_passes
              = (Some 0, servo_init real_fpu, [Usage])"
    using bad_configuration_exits [where A = real_fpu and S = "test_sys 3" and opts = "[Opt_h]"
        and ?out1.0 = "[Usage]" and status = 0 and now = None and set_ret = 0
        and passes = two_passes] p3
    by blast
  have m6: "snd (process_args (test_sys 3) ([Opt_d ''/dev/pps0''] @ Opt_other # [Opt_h])
            (settings_init real_fpu (test_sys 3)) []) = Inl (- 1)"
    using bad_configuration_exits [where S = "test_sys 3" and before = "[Opt_d ''/dev/pps0'']"
        and rest = "[Opt_h]" and ?v0.0 = "settings_init real_fpu (test_sys 3)"
        and ?out0.0 = "[]"] n4
    by blast
  from m1 m2 m5 m6 m3 m4 show ?thesis
    by (intro conjI)
qed

text \<open>
  The claim as written promises a non-zero status whenever the configuration is bad. With
  \<open>-h\<close> as the only option neither a PPS device nor a master clock is configured, and after a
  \<open>-c\<close> whose device cannot be opened the destination handle is invalid; in both runs a
  following \<open>-h\<close> makes \<open>main\<close> print the usage text and return 0.
\<close>

theorem help_status_counterexample:
  "opt_device (settings_init real_fpu (test_sys 3)) = None
   \<and> opt_src (settings_init real_fpu (test_sys 3)) = CLOCK_INVALID (test_sys 3)
   \<and> main real_fpu (test_sys 3) [Opt_h] None 0 two_passes
       = (Some 0, servo_init real_fpu, [Usage])
   \<and> snd (process_args (test_sys (- 1)) [Opt_c ''/dev/ptp0'']
            (settings_init real_fpu (test_sys (- 1))) [])
       = Inr (settings_init real_fpu (test_sys (- 1)) \<lparr> opt_dst := - 1 \<rparr>)
   \<and> CLOCK_INVALID (test_sys (- 1)) = - 1
   \<and> main real_fpu (test_sys (- 1)) [Opt_c ''/dev/ptp0'', Opt_h] None 0 two_passes
       = (Some 0, servo_init real_fpu, [Fprintf_stderr ''cannot open /dev/ptp0'', Usage])"
  by (simp add: main_def main_startup_def settings_init_def test_sys_def clock_open_def)

end
